theory Spec2Isabelle
  imports Main "HOL-Library.Sublist"
begin

section \<open>The WMStats request summary box\<close>

text \<open>
  The source is \<^verbatim>\<open>WMStats.RequestDataList.js\<close>: a function \<^verbatim>\<open>format(summary)\<close>
  that assembles an HTML fragment by string concatenation, and
  \<^verbatim>\<open>WMStats.RequestDataList(data, containerDiv)\<close>, which writes that fragment into a
  container through the selector utility \<^verbatim>\<open>$\<close>.  The file has no strict-mode
  directive, so it runs as sloppy-mode JavaScript.
\<close>

subsection \<open>Primitive values, their string form and the operator \<^verbatim>\<open>+\<close>\<close>

text \<open>
  The values of the model: \<^verbatim>\<open>undefined\<close>, the integral Numbers (the summary holds
  counts), \<^verbatim>\<open>NaN\<close> and Strings.  The decimal rendering below prints every digit
  of the integer, which is what Number-to-String gives for the integers a Number holds
  exactly, those of magnitude below \<open>2^53\<close>; larger counts are outside the model.
\<close>

datatype jsval = JUndefined | JNum int | JNaN | JStr string

fun digits :: "nat \<Rightarrow> string" where
  "digits n =
     (if n < 10 then [''0123456789'' ! n]
      else digits (n div 10) @ [''0123456789'' ! (n mod 10)])"

declare digits.simps [simp del]

definition int_to_string :: "int \<Rightarrow> string" where
  "int_to_string i = (if i < 0 then CHR ''-'' # digits (nat (- i)) else digits (nat i))"

fun ToString :: "jsval \<Rightarrow> string" where
  "ToString JUndefined = ''undefined''"
| "ToString (JNum i) = int_to_string i"
| "ToString JNaN = ''NaN''"
| "ToString (JStr s) = s"

text \<open>
  The operator \<^verbatim>\<open>+\<close>: concatenation as soon as one operand is a String, addition of
  Numbers otherwise, where \<^verbatim>\<open>undefined\<close> converts to \<^verbatim>\<open>NaN\<close>.
\<close>

fun js_add :: "jsval \<Rightarrow> jsval \<Rightarrow> jsval" where
  "js_add (JStr a) v = JStr (a @ ToString v)"
| "js_add v (JStr b) = JStr (ToString v @ b)"
| "js_add (JNum x) (JNum y) = JNum (x + y)"
| "js_add a b = JNaN"

subsection \<open>The summary object, the page and the global scope\<close>

text \<open>
  \<^verbatim>\<open>summary.summaryStruct\<close> is an object with the three properties \<open>format\<close>
  reads; a property that is not there reads as \<open>JUndefined\<close>.
\<close>

record summary_struct =
  length_prop :: jsval
  totalEvents :: jsval
  processedEvents :: jsval

text \<open>
  Modelled from the spec: the summary class and the bodies of its accessors are not in
  the source file.  The spec treats them as read capabilities that return a count, so an
  accessor is the value it returns; \<open>None\<close> is an accessor (or the nested struct) the
  object does not have, on which the call (or the property read) throws a TypeError.
\<close>

record summary =
  summaryStruct :: "summary_struct option"
  getWMBSTotalJobs :: "jsval option"
  getTotalCooloff :: "jsval option"
  getJobStatus :: "(string \<Rightarrow> jsval) option"
  getTotalFailure :: "jsval option"
  getTotalQueued :: "jsval option"

type_synonym ref = nat

text \<open>
  A container reference is a well-formed selector.  On a malformed selector \<^verbatim>\<open>$\<close>
  throws before \<open>format\<close> is evaluated; such references are not values of the model.
\<close>

type_synonym container = string

text \<open>
  What a call can see and change: the bindings of the global scope, the objects reachable
  through references (arguments are passed by reference; a reference with no object is
  \<^verbatim>\<open>undefined\<close>), and the content of the page's elements, keyed by the container
  reference that selects them.
\<close>

record world =
  globals :: "string \<rightharpoonup> jsval"
  objects :: "ref \<rightharpoonup> summary"
  elements :: "container \<rightharpoonup> string"

datatype js_error = TypeError | ReferenceError

subsection \<open>Statements and expressions: state passing with exceptions\<close>

type_synonym 'a js = "world \<Rightarrow> (js_error + 'a) \<times> world"

definition js_return :: "'a \<Rightarrow> 'a js" where
  "js_return x w = (Inr x, w)"

definition js_throw :: "js_error \<Rightarrow> 'a js" where
  "js_throw e w = (Inl e, w)"

definition js_bind :: "'a js \<Rightarrow> ('a \<Rightarrow> 'b js) \<Rightarrow> 'b js" where
  "js_bind m f w = (case m w of (Inl e, w') \<Rightarrow> (Inl e, w') | (Inr x, w') \<Rightarrow> f x w')"

definition js_seq :: "unit js \<Rightarrow> 'a js \<Rightarrow> 'a js" where
  "js_seq m k = js_bind m (\<lambda>_. k)"

fun block :: "unit js list \<Rightarrow> unit js" where
  "block [] = js_return ()"
| "block (s # ss) = js_seq s (block ss)"

definition literal :: "string \<Rightarrow> jsval js" where
  "literal s = js_return (JStr s)"

definition plus :: "jsval js \<Rightarrow> jsval js \<Rightarrow> jsval js" where
  "plus e1 e2 = js_bind e1 (\<lambda>a. js_bind e2 (\<lambda>b. js_return (js_add a b)))"

text \<open>\<^verbatim>\<open>summary.\<close>: a member access on the argument; on \<^verbatim>\<open>undefined\<close> it throws.\<close>

definition deref :: "ref \<Rightarrow> summary js" where
  "deref r w = (case objects w r of None \<Rightarrow> (Inl TypeError, w) | Some s \<Rightarrow> (Inr s, w))"

text \<open>\<^verbatim>\<open>summary.summaryStruct.p\<close>\<close>

definition struct_prop :: "ref \<Rightarrow> (summary_struct \<Rightarrow> jsval) \<Rightarrow> jsval js" where
  "struct_prop r p =
     js_bind (deref r) (\<lambda>s.
       case summaryStruct s of None \<Rightarrow> js_throw TypeError | Some ss \<Rightarrow> js_return (p ss))"

text \<open>\<^verbatim>\<open>summary.accessor()\<close> and \<^verbatim>\<open>summary.accessor(arg)\<close>\<close>

definition call0 :: "ref \<Rightarrow> (summary \<Rightarrow> jsval option) \<Rightarrow> jsval js" where
  "call0 r acc =
     js_bind (deref r) (\<lambda>s.
       case acc s of None \<Rightarrow> js_throw TypeError | Some v \<Rightarrow> js_return v)"

definition call1 :: "ref \<Rightarrow> (summary \<Rightarrow> (string \<Rightarrow> jsval) option) \<Rightarrow> string \<Rightarrow> jsval js" where
  "call1 r acc arg =
     js_bind (deref r) (\<lambda>s.
       case acc s of None \<Rightarrow> js_throw TypeError | Some f \<Rightarrow> js_return (f arg))"

text \<open>
  \<^verbatim>\<open>var summaryStruct = summary.summaryStruct\<close>: the read can throw; the local is
  never used afterwards, so its binding is dropped.
\<close>

definition var_summaryStruct :: "ref \<Rightarrow> unit js" where
  "var_summaryStruct r = js_bind (deref r) (\<lambda>s. js_return ())"

text \<open>
  \<^verbatim>\<open>htmlstr\<close> is declared neither in \<open>format\<close> nor in the enclosing function
  expression, so the identifier resolves to the global scope: an assignment creates or
  overwrites the global binding, a read of an unbound name throws a ReferenceError.
  \<^verbatim>\<open>x += e\<close> reads \<open>x\<close>, then evaluates \<open>e\<close>, then stores the sum.
\<close>

definition read_global :: "string \<Rightarrow> jsval js" where
  "read_global x w =
     (case globals w x of None \<Rightarrow> (Inl ReferenceError, w) | Some v \<Rightarrow> (Inr v, w))"

definition write_global :: "string \<Rightarrow> jsval \<Rightarrow> unit js" where
  "write_global x v w = (Inr (), w\<lparr>globals := (globals w)(x \<mapsto> v)\<rparr>)"

definition assign :: "string \<Rightarrow> jsval js \<Rightarrow> unit js" where
  "assign x e = js_bind e (\<lambda>v. write_global x v)"

definition add_assign :: "string \<Rightarrow> jsval js \<Rightarrow> unit js" where
  "add_assign x e =
     js_bind (read_global x) (\<lambda>old. js_bind e (\<lambda>v. write_global x (js_add old v)))"

subsection \<open>\<^verbatim>\<open>format\<close>\<close>

definition format :: "ref \<Rightarrow> jsval js" where
  "format summary =
     js_seq (block
       [var_summaryStruct summary,
        assign ''htmlstr'' (literal ''''),
        add_assign ''htmlstr'' (literal ''<div class='requestSummaryBox'>''),
        add_assign ''htmlstr'' (literal ''<ul>''),
        add_assign ''htmlstr''
          (plus (plus (literal ''<li> requests: '') (struct_prop summary length_prop))
            (literal ''</li>'')),
        add_assign ''htmlstr''
          (plus (plus (literal ''<li> total events: '') (struct_prop summary totalEvents))
            (literal ''</li>'')),
        add_assign ''htmlstr''
          (plus (plus (literal ''<li> processed events: '')
             (struct_prop summary processedEvents)) (literal ''</li>'')),
        add_assign ''htmlstr''
          (plus (plus (literal ''<li> created: '') (call0 summary getWMBSTotalJobs))
            (literal ''</li>'')),
        add_assign ''htmlstr''
          (plus (plus (literal ''<li> cooloff: '') (call0 summary getTotalCooloff))
            (literal ''</li>'')),
        add_assign ''htmlstr''
          (plus (plus (literal ''<li> success: '') (call1 summary getJobStatus ''success''))
            (literal ''</li>'')),
        add_assign ''htmlstr''
          (plus (plus (literal ''<li> failure: '') (call0 summary getTotalFailure))
            (literal ''</li>'')),
        add_assign ''htmlstr''
          (plus (plus (literal ''<li> queued: '') (call0 summary getTotalQueued))
            (literal ''</li>'')),
        add_assign ''htmlstr''
          (plus (plus (literal ''<li> running: '')
             (call1 summary getJobStatus ''submit.running'')) (literal ''</li>'')),
        add_assign ''htmlstr''
          (plus (plus (literal ''<li> pending: '')
             (call1 summary getJobStatus ''submit.pending'')) (literal ''</li>'')),
        add_assign ''htmlstr'' (literal ''</ul>''),
        add_assign ''htmlstr'' (literal ''</div>'')])
       (read_global ''htmlstr'')"

subsection \<open>\<^verbatim>\<open>WMStats.RequestDataList\<close>\<close>

text \<open>
  Modelled from the spec: the selector utility \<^verbatim>\<open>$\<close> and the \<^verbatim>\<open>html\<close> method of
  what it returns (jQuery) are not in the source file.  The spec describes a global
  selector utility through which the container's content is written and fully replaced:
  \<^verbatim>\<open>html(v)\<close> replaces the content of every selected element by the markup \<open>v\<close>.
  For a reference that selects no element the spec states a contract for a
  reimplementation only and records that the original has no explicit error handling;
  what the original does there is the library's behaviour: for a well-formed selector
  that matches nothing \<^verbatim>\<open>$(c)\<close> is an empty selection, and \<^verbatim>\<open>html(v)\<close> on an empty
  selection does nothing.  \<open>format\<close> only ever returns a String, on which \<open>ToString\<close>
  is the identity.
\<close>

definition jq_select :: "container \<Rightarrow> container list js" where
  "jq_select c w = (case elements w c of None \<Rightarrow> (Inr [], w) | Some old \<Rightarrow> (Inr [c], w))"

definition jq_html :: "container list \<Rightarrow> jsval \<Rightarrow> unit js" where
  "jq_html sel v w =
     (Inr (), w\<lparr>elements := fold (\<lambda>c m. m(c \<mapsto> ToString v)) sel (elements w)\<rparr>)"

text \<open>
  \<^verbatim>\<open>$(containerDiv).html(format(data))\<close>: the selection is evaluated first, then
  the argument, then the call.
\<close>

definition RequestDataList :: "ref \<Rightarrow> container \<Rightarrow> unit js" where
  "RequestDataList data containerDiv =
     js_bind (jq_select containerDiv) (\<lambda>sel.
     js_bind (format data) (\<lambda>fragment.
     jq_html sel fragment))"

subsection \<open>The fragment the specification describes\<close>

text \<open>
  The spec's words: ten labelled values in a fixed order, each interpolated as plain text
  into a list item, inside the summary box.
\<close>

definition list_item :: "string \<Rightarrow> jsval \<Rightarrow> string" where
  "list_item label v = ''<li> '' @ label @ '': '' @ ToString v @ ''</li>''"

definition labels :: "string list" where
  "labels = [''requests'', ''total events'', ''processed events'', ''created'', ''cooloff'',
             ''success'', ''failure'', ''queued'', ''running'', ''pending'']"

definition expected_fragment :: "jsval list \<Rightarrow> string" where
  "expected_fragment vs =
     ''<div class='requestSummaryBox'><ul>'' @ concat (map2 list_item labels vs) @ ''</ul></div>''"

text \<open>
  The ten values of a summary in the spec's order, when the summary has its nested struct
  and all five accessors.
\<close>

definition summary_values :: "summary \<Rightarrow> jsval list option" where
  "summary_values s =
     (case summaryStruct s of None \<Rightarrow> None | Some ss \<Rightarrow>
     (case getWMBSTotalJobs s of None \<Rightarrow> None | Some created \<Rightarrow>
     (case getTotalCooloff s of None \<Rightarrow> None | Some cooloff \<Rightarrow>
     (case getJobStatus s of None \<Rightarrow> None | Some status \<Rightarrow>
     (case getTotalFailure s of None \<Rightarrow> None | Some failure \<Rightarrow>
     (case getTotalQueued s of None \<Rightarrow> None | Some queued \<Rightarrow>
        Some [length_prop ss, totalEvents ss, processedEvents ss, created, cooloff,
              status ''success'', failure, queued,
              status ''submit.running'', status ''submit.pending'']))))))"

subsection \<open>Example inputs\<close>

text \<open>
  The summary of the spec's example: three requests, 100 total and 50 processed events,
  10 created jobs, 2 in cooloff, 8 successes, 1 failure, 4 queued, 3 running, 2 pending,
  held at reference 0 of a page whose element \<^verbatim>\<open>#summary\<close> shows older content.
\<close>

definition example_status :: "string \<Rightarrow> jsval" where
  "example_status st =
     (if st = ''success'' then JNum 8
      else if st = ''submit.running'' then JNum 3
      else if st = ''submit.pending'' then JNum 2
      else JNum 0)"

definition example_summary :: summary where
  "example_summary =
     \<lparr>summaryStruct = Some \<lparr>length_prop = JNum 3, totalEvents = JNum 100, processedEvents = JNum 50\<rparr>,
      getWMBSTotalJobs = Some (JNum 10),
      getTotalCooloff = Some (JNum 2),
      getJobStatus = Some example_status,
      getTotalFailure = Some (JNum 1),
      getTotalQueued = Some (JNum 4)\<rparr>"

definition example_page :: world where
  "example_page =
     \<lparr>globals = Map.empty,
      objects = [0 \<mapsto> example_summary],
      elements = [''#summary'' \<mapsto> ''<p>loading</p>'']\<rparr>"

text \<open>
  A second page: another reference, a summary that answers the three statuses
  \<open>format\<close> asks for as the example does and any other with \<^verbatim>\<open>undefined\<close>, a global
  \<^verbatim>\<open>htmlstr\<close> left over from elsewhere, and no elements.
\<close>

definition other_status :: "string \<Rightarrow> jsval" where
  "other_status st =
     (if st = ''success'' then JNum 8
      else if st = ''submit.running'' then JNum 3
      else if st = ''submit.pending'' then JNum 2
      else JUndefined)"

definition other_page :: world where
  "other_page =
     \<lparr>globals = [''htmlstr'' \<mapsto> JStr ''stale''],
      objects = [7 \<mapsto> example_summary\<lparr>getJobStatus := Some other_status\<rparr>],
      elements = Map.empty\<rparr>"

text \<open>
  Variations of the example page: the accessor for the queued total returns
  \<^verbatim>\<open>undefined\<close>; the summary has no such accessor; the container matches no element.
\<close>

definition undefined_queued_page :: world where
  "undefined_queued_page =
     example_page\<lparr>objects := [0 \<mapsto> example_summary\<lparr>getTotalQueued := Some JUndefined\<rparr>]\<rparr>"

definition no_queued_page :: world where
  "no_queued_page =
     example_page\<lparr>objects := [0 \<mapsto> example_summary\<lparr>getTotalQueued := None\<rparr>]\<rparr>"


subsection \<open>The spec's data model\<close>


subsection \<open>Counting list items\<close>


section \<open>What \<open>format\<close> computes\<close>

lemmas js_defs =
  js_return_def js_throw_def js_bind_def js_seq_def literal_def plus_def deref_def
  struct_prop_def call0_def call1_def var_summaryStruct_def read_global_def
  write_global_def assign_def add_assign_def

lemma format_result:
  assumes "objects w r = Some s" and "summary_values s = Some vs"
  shows "format r w =
           (Inr (JStr (expected_fragment vs)),
            w\<lparr>globals := (globals w)(''htmlstr'' \<mapsto> JStr (expected_fragment vs))\<rparr>)"
  using assms
  by (auto simp: format_def js_defs summary_values_def expected_fragment_def labels_def
        list_item_def split: option.splits)

lemma format_undefined: "objects w r = None \<Longrightarrow> format r w = (Inl TypeError, w)"
  by (simp add: format_def js_defs)

lemma format_fails:
  assumes "objects w r = Some s" and "summary_values s = None"
  shows "fst (format r w) = Inl TypeError"
  using assms
  by (auto simp: format_def js_defs summary_values_def split: option.splits)

lemma format_elements: "elements (snd (format r w)) = elements w"
  by (auto simp: format_def js_defs split: option.splits)

lemma format_objects: "objects (snd (format r w)) = objects w"
  by (auto simp: format_def js_defs split: option.splits)

lemma example_values:
  "summary_values example_summary = Some (map JNum [3, 100, 50, 10, 2, 8, 1, 4, 3, 2])"
  by (simp add: summary_values_def example_summary_def example_status_def)

lemma format_result_indep:
  assumes "objects w1 r = objects w2 r"
  shows "fst (format r w1) = fst (format r w2)"
proof (cases "objects w2 r")
  case None
  with assms show ?thesis by (simp add: format_undefined)
next
  case (Some s)
  with assms have o1: "objects w1 r = Some s" by simp
  show ?thesis
  proof (cases "summary_values s")
    case None
    then show ?thesis by (simp add: format_fails [OF o1] format_fails [OF Some])
  next
    case (Some vs)
    then show ?thesis
      by (simp add: format_result [OF o1] format_result [OF \<open>objects w2 r = Some s\<close>])
  qed
qed

lemma RequestDataList_elements:
  "elements (snd (RequestDataList d c w)) =
     (case elements w c of None \<Rightarrow> elements w
      | Some old \<Rightarrow>
          (case fst (format d w) of Inl e \<Rightarrow> elements w
           | Inr v \<Rightarrow> (elements w)(c \<mapsto> ToString v)))"
proof -
  obtain res w' where f: "format d w = (res, w')"
    by (cases "format d w")
  have "elements w' = elements w"
    using format_elements [of d w] by (simp add: f)
  then show ?thesis
    by (simp add: RequestDataList_def js_bind_def jq_select_def jq_html_def f
          split: option.splits sum.splits)
qed

lemma RequestDataList_objects: "objects (snd (RequestDataList d c w)) = objects w"
proof -
  obtain res w' where f: "format d w = (res, w')"
    by (cases "format d w")
  have "objects w' = objects w"
    using format_objects [of d w] by (simp add: f)
  then show ?thesis
    by (simp add: RequestDataList_def js_bind_def jq_select_def jq_html_def f
          split: option.splits sum.splits)
qed

lemma RequestDataList_result:
  "fst (RequestDataList d c w) = (case fst (format d w) of Inl e \<Rightarrow> Inl e | Inr v \<Rightarrow> Inr ())"
proof -
  obtain res w' where f: "format d w = (res, w')"
    by (cases "format d w")
  show ?thesis
    by (simp add: RequestDataList_def js_bind_def jq_select_def jq_html_def f
          split: option.splits sum.splits)
qed

lemma summary_values_None:
  "summary_values s = None \<longleftrightarrow>
     summaryStruct s = None \<or> getWMBSTotalJobs s = None \<or> getTotalCooloff s = None \<or>
     getJobStatus s = None \<or> getTotalFailure s = None \<or> getTotalQueued s = None"
  by (auto simp: summary_values_def split: option.splits)

lemma format_other_globals:
  "x \<noteq> ''htmlstr'' \<Longrightarrow> globals (snd (format r w)) x = globals w x"
  by (auto simp: format_def js_defs split: option.splits)

lemma example_fragment:
  "expected_fragment (map JNum [3, 100, 50, 10, 2, 8, 1, 4, 3, 2]) =
     ''<div class='requestSummaryBox'><ul><li> requests: 3</li><li> total events: 100</li><li> processed events: 50</li><li> created: 10</li><li> cooloff: 2</li><li> success: 8</li><li> failure: 1</li><li> queued: 4</li><li> running: 3</li><li> pending: 2</li></ul></div>''"
  by (simp add: expected_fragment_def labels_def list_item_def int_to_string_def digits.simps)

section \<open>Counting \<^verbatim>\<open><li>\<close> in the fragment\<close>










section \<open>The rendered fragment\<close>

text \<open>
  Claim C1.  When the summary has its nested struct and every accessor returns a value,
  \<open>format\<close> returns the summary box holding ten list items in this order: requests,
  total events, processed events, created (the WMBS total jobs), cooloff, success,
  failure, queued, running (job status \<^verbatim>\<open>submit.running\<close>) and pending (job status
  \<^verbatim>\<open>submit.pending\<close>); each item is its label followed by the value's string
  form, inserted as it is.
\<close>

theorem format_ten_labelled_values:
  assumes "objects w summary = Some s"
    and "summaryStruct s = Some ss"
    and "getWMBSTotalJobs s = Some created"
    and "getTotalCooloff s = Some cooloff"
    and "getJobStatus s = Some status"
    and "getTotalFailure s = Some failure"
    and "getTotalQueued s = Some queued"
  shows "fst (format summary w) =
           Inr (JStr (''<div class='requestSummaryBox'><ul>''
             @ list_item ''requests'' (length_prop ss)
             @ list_item ''total events'' (totalEvents ss)
             @ list_item ''processed events'' (processedEvents ss)
             @ list_item ''created'' created
             @ list_item ''cooloff'' cooloff
             @ list_item ''success'' (status ''success'')
             @ list_item ''failure'' failure
             @ list_item ''queued'' queued
             @ list_item ''running'' (status ''submit.running'')
             @ list_item ''pending'' (status ''submit.pending'')
             @ ''</ul></div>''))"
proof -
  let ?vs = "[length_prop ss, totalEvents ss, processedEvents ss, created, cooloff,
              status ''success'', failure, queued,
              status ''submit.running'', status ''submit.pending'']"
  have "summary_values s = Some ?vs"
    using assms(2-7) by (simp add: summary_values_def)
  with assms(1) have "fst (format summary w) = Inr (JStr (expected_fragment ?vs))"
    by (simp add: format_result)
  then show ?thesis
    by (simp add: expected_fragment_def labels_def)
qed

theorem format_ten_labelled_values_witness:
  "fst (format 0 example_page) =
     Inr (JStr (''<div class='requestSummaryBox'><ul><li> requests: 3</li><li> total events: 100</li><li> processed events: 50</li><li> created: 10</li><li> cooloff: 2</li><li> success: 8</li><li> failure: 1</li><li> queued: 4</li><li> running: 3</li><li> pending: 2</li></ul></div>''))"
proof -
  have obj: "objects example_page 0 = Some example_summary"
    by (simp add: example_page_def)
  have struct: "summaryStruct example_summary =
      Some \<lparr>length_prop = JNum 3, totalEvents = JNum 100, processedEvents = JNum 50\<rparr>"
    and created: "getWMBSTotalJobs example_summary = Some (JNum 10)"
    and cooloff: "getTotalCooloff example_summary = Some (JNum 2)"
    and status: "getJobStatus example_summary = Some example_status"
    and failure: "getTotalFailure example_summary = Some (JNum 1)"
    and queued: "getTotalQueued example_summary = Some (JNum 4)"
    by (simp_all add: example_summary_def)
  have rendered: "''<div class='requestSummaryBox'><ul>''
      @ list_item ''requests''
          (length_prop \<lparr>length_prop = JNum 3, totalEvents = JNum 100, processedEvents = JNum 50\<rparr>)
      @ list_item ''total events''
          (totalEvents \<lparr>length_prop = JNum 3, totalEvents = JNum 100, processedEvents = JNum 50\<rparr>)
      @ list_item ''processed events''
          (processedEvents \<lparr>length_prop = JNum 3, totalEvents = JNum 100, processedEvents = JNum 50\<rparr>)
      @ list_item ''created'' (JNum 10)
      @ list_item ''cooloff'' (JNum 2)
      @ list_item ''success'' (example_status ''success'')
      @ list_item ''failure'' (JNum 1)
      @ list_item ''queued'' (JNum 4)
      @ list_item ''running'' (example_status ''submit.running'')
      @ list_item ''pending'' (example_status ''submit.pending'')
      @ ''</ul></div>''
    = ''<div class='requestSummaryBox'><ul><li> requests: 3</li><li> total events: 100</li><li> processed events: 50</li><li> created: 10</li><li> cooloff: 2</li><li> success: 8</li><li> failure: 1</li><li> queued: 4</li><li> running: 3</li><li> pending: 2</li></ul></div>''"
    by (simp add: example_status_def list_item_def int_to_string_def digits.simps)
  show ?thesis
    using format_ten_labelled_values [OF obj struct created cooloff status failure queued]
    by (simp only: rendered)
qed

text \<open>
  Claim C2.  For a summary with the values 3, 100, 50, 10, 2, 8, 1, 4, 3, 2 the list
  items of the fragment are, in this order, \<^verbatim>\<open>requests: 3\<close>,
  \<^verbatim>\<open>total events: 100\<close>, \<^verbatim>\<open>processed events: 50\<close>, \<^verbatim>\<open>created: 10\<close>,
  \<^verbatim>\<open>cooloff: 2\<close>, \<^verbatim>\<open>success: 8\<close>, \<^verbatim>\<open>failure: 1\<close>, \<^verbatim>\<open>queued: 4\<close>,
  \<^verbatim>\<open>running: 3\<close> and \<^verbatim>\<open>pending: 2\<close>, each written after the single space that
  follows its opening tag.
\<close>

theorem format_example:
  assumes "objects w summary = Some s"
    and "summary_values s = Some (map JNum [3, 100, 50, 10, 2, 8, 1, 4, 3, 2])"
  shows "fst (format summary w) =
           Inr (JStr (''<div class='requestSummaryBox'><ul>''
             @ concat (map (\<lambda>text. ''<li> '' @ text @ ''</li>'')
                 [''requests: 3'', ''total events: 100'', ''processed events: 50'',
                  ''created: 10'', ''cooloff: 2'', ''success: 8'', ''failure: 1'',
                  ''queued: 4'', ''running: 3'', ''pending: 2''])
             @ ''</ul></div>''))"
proof -
  have rendered: "expected_fragment (map JNum [3, 100, 50, 10, 2, 8, 1, 4, 3, 2]) =
      ''<div class='requestSummaryBox'><ul>''
        @ concat (map (\<lambda>text. ''<li> '' @ text @ ''</li>'')
            [''requests: 3'', ''total events: 100'', ''processed events: 50'',
             ''created: 10'', ''cooloff: 2'', ''success: 8'', ''failure: 1'',
             ''queued: 4'', ''running: 3'', ''pending: 2''])
        @ ''</ul></div>''"
    by (simp add: expected_fragment_def labels_def list_item_def int_to_string_def
          digits.simps)
  have "fst (format summary w) =
          Inr (JStr (expected_fragment (map JNum [3, 100, 50, 10, 2, 8, 1, 4, 3, 2])))"
    by (simp add: format_result [OF assms])
  then show ?thesis
    by (simp only: rendered)
qed

theorem format_example_witness:
  "fst (format 0 example_page) =
     Inr (JStr (''<div class='requestSummaryBox'><ul>''
       @ concat (map (\<lambda>text. ''<li> '' @ text @ ''</li>'')
           [''requests: 3'', ''total events: 100'', ''processed events: 50'',
            ''created: 10'', ''cooloff: 2'', ''success: 8'', ''failure: 1'',
            ''queued: 4'', ''running: 3'', ''pending: 2''])
       @ ''</ul></div>''))"
proof -
  have "objects example_page 0 = Some example_summary"
    by (simp add: example_page_def)
  then show ?thesis
    using example_values by (rule format_example)
qed

section \<open>Writing into the container\<close>

text \<open>
  Claim C3.  Rendering is idempotent on the page: calling the renderer a second time with
  the same summary and the same container leaves every element with the content it had
  after the first call.
\<close>

theorem RequestDataList_idempotent:
  "elements (snd (RequestDataList data containerDiv (snd (RequestDataList data containerDiv w))))
     = elements (snd (RequestDataList data containerDiv w))"
proof -
  let ?w' = "snd (RequestDataList data containerDiv w)"
  have "objects ?w' data = objects w data"
    by (simp add: RequestDataList_objects)
  then have same: "fst (format data ?w') = fst (format data w)"
    by (rule format_result_indep)
  show ?thesis
  proof (cases "elements w containerDiv")
    case None
    then have "elements ?w' = elements w"
      by (simp add: RequestDataList_elements)
    with None show ?thesis
      by (simp add: RequestDataList_elements [of data containerDiv ?w'])
  next
    case (Some old)
    show ?thesis
    proof (cases "fst (format data w)")
      case (Inl e)
      with Some have "elements ?w' = elements w"
        by (simp add: RequestDataList_elements)
      with Some Inl same show ?thesis
        by (simp add: RequestDataList_elements [of data containerDiv ?w'])
    next
      case (Inr v)
      with Some have "elements ?w' = (elements w)(containerDiv \<mapsto> ToString v)"
        by (simp add: RequestDataList_elements)
      with Inr same show ?thesis
        by (simp add: RequestDataList_elements [of data containerDiv ?w'])
    qed
  qed
qed

text \<open>
  Claim C4.  Rendering replaces: when the summary has all its values and the container
  selects an element, that element's content after the call is exactly the fragment,
  whatever it held before, and no other element changes.
\<close>

theorem RequestDataList_replaces:
  assumes "objects w data = Some s"
    and "summary_values s = Some vs"
    and "elements w containerDiv = Some old"
  shows "elements (snd (RequestDataList data containerDiv w))
           = (elements w)(containerDiv \<mapsto> expected_fragment vs)"
  by (simp add: RequestDataList_elements format_result [OF assms(1,2)] assms(3))

theorem RequestDataList_replaces_witness:
  "elements example_page ''#summary'' = Some ''<p>loading</p>'' \<and>
   elements (snd (RequestDataList 0 ''#summary'' example_page)) =
     [''#summary'' \<mapsto> ''<div class='requestSummaryBox'><ul><li> requests: 3</li><li> total events: 100</li><li> processed events: 50</li><li> created: 10</li><li> cooloff: 2</li><li> success: 8</li><li> failure: 1</li><li> queued: 4</li><li> running: 3</li><li> pending: 2</li></ul></div>'']"
proof -
  have obj: "objects example_page 0 = Some example_summary"
    and old: "elements example_page ''#summary'' = Some ''<p>loading</p>''"
    by (simp_all add: example_page_def)
  have "elements (snd (RequestDataList 0 ''#summary'' example_page)) =
      (elements example_page)(''#summary'' \<mapsto>
         expected_fragment (map JNum [3, 100, 50, 10, 2, 8, 1, 4, 3, 2]))"
    using obj example_values old by (rule RequestDataList_replaces)
  also have "\<dots> = [''#summary'' \<mapsto> expected_fragment (map JNum [3, 100, 50, 10, 2, 8, 1, 4, 3, 2])]"
    by (simp add: example_page_def)
  finally show ?thesis
    using old by (simp only: example_fragment simp_thms)
qed

section \<open>Determinism, the summary and the global scope\<close>

text \<open>
  Claim C5.  \<open>format\<close> is deterministic: two calls, from any two states of the page and
  the global scope, on summaries that agree on the ten values \<open>format\<close> reads (or lack
  the same capability) have the same outcome, the same fragment or the same error.
\<close>

theorem format_deterministic:
  assumes "objects w1 r1 = Some s1"
    and "objects w2 r2 = Some s2"
    and "summary_values s1 = summary_values s2"
  shows "fst (format r1 w1) = fst (format r2 w2)"
proof (cases "summary_values s2")
  case None
  with assms show ?thesis by (simp add: format_fails)
next
  case (Some vs)
  with assms show ?thesis by (simp add: format_result)
qed

theorem format_deterministic_witness:
  "fst (format 0 example_page) = fst (format 7 other_page)"
proof -
  have "objects example_page 0 = Some example_summary"
    by (simp add: example_page_def)
  moreover have "objects other_page 7 = Some (example_summary\<lparr>getJobStatus := Some other_status\<rparr>)"
    by (simp add: other_page_def)
  moreover have "summary_values example_summary =
      summary_values (example_summary\<lparr>getJobStatus := Some other_status\<rparr>)"
    by (simp add: summary_values_def example_summary_def example_status_def other_status_def)
  ultimately show ?thesis
    by (rule format_deterministic)
qed

text \<open>
  Claim C8.  The summary is only read: after a call of the renderer every object holds
  the fields and accessor values it held before.
\<close>

theorem RequestDataList_summary_unchanged:
  "objects (snd (RequestDataList data containerDiv w)) = objects w"
  by (rule RequestDataList_objects)

text \<open>
  Claim C9.  The claim is that \<open>format\<close> touches no global binding.  In the source
  \<^verbatim>\<open>htmlstr\<close> is assigned without a \<^verbatim>\<open>var\<close>, next to the declared local
  \<^verbatim>\<open>summaryStruct\<close> and inside a function expression that exists to keep names
  local: on a page with no such global, the call leaves a global \<^verbatim>\<open>htmlstr\<close> that
  holds the fragment.
\<close>

theorem format_leaves_global_htmlstr:
  "globals example_page ''htmlstr'' = None \<and>
   globals (snd (format 0 example_page)) ''htmlstr'' =
     Some (JStr ''<div class='requestSummaryBox'><ul><li> requests: 3</li><li> total events: 100</li><li> processed events: 50</li><li> created: 10</li><li> cooloff: 2</li><li> success: 8</li><li> failure: 1</li><li> queued: 4</li><li> running: 3</li><li> pending: 2</li></ul></div>'')"
proof -
  have "objects example_page 0 = Some example_summary"
    by (simp add: example_page_def)
  then have "format 0 example_page =
      (Inr (JStr (expected_fragment (map JNum [3, 100, 50, 10, 2, 8, 1, 4, 3, 2]))),
       example_page\<lparr>globals := (globals example_page)(''htmlstr'' \<mapsto>
         JStr (expected_fragment (map JNum [3, 100, 50, 10, 2, 8, 1, 4, 3, 2])))\<rparr>)"
    using example_values by (rule format_result)
  then have "globals (snd (format 0 example_page)) ''htmlstr'' =
      Some (JStr (expected_fragment (map JNum [3, 100, 50, 10, 2, 8, 1, 4, 3, 2])))"
    by simp
  moreover have "globals example_page ''htmlstr'' = None"
    by (simp add: example_page_def)
  ultimately show ?thesis
    by (simp only: example_fragment simp_thms)
qed

section \<open>Errors\<close>

text \<open>
  Claim C6, as the source has it.  A summary without its nested struct or without one of
  the five accessors makes the renderer throw a TypeError (the source has no error type
  of its own) before anything is written: every element keeps its content.  A value that
  is returned is rendered, whatever it is.
\<close>

theorem RequestDataList_missing_accessor:
  assumes "objects w data = Some s"
    and "summaryStruct s = None \<or> getWMBSTotalJobs s = None \<or> getTotalCooloff s = None \<or>
         getJobStatus s = None \<or> getTotalFailure s = None \<or> getTotalQueued s = None"
  shows "fst (RequestDataList data containerDiv w) = Inl TypeError \<and>
         elements (snd (RequestDataList data containerDiv w)) = elements w"
proof -
  from assms(2) have "summary_values s = None"
    by (simp add: summary_values_None)
  with assms(1) have "fst (format data w) = Inl TypeError"
    by (rule format_fails)
  then show ?thesis
    by (simp add: RequestDataList_result RequestDataList_elements split: option.splits)
qed

theorem RequestDataList_missing_accessor_witness:
  "fst (RequestDataList 0 ''#summary'' no_queued_page) = Inl TypeError \<and>
   elements (snd (RequestDataList 0 ''#summary'' no_queued_page)) = elements no_queued_page"
proof -
  have "objects no_queued_page 0 = Some (example_summary\<lparr>getTotalQueued := None\<rparr>)"
    by (simp add: no_queued_page_def example_page_def)
  then show ?thesis
    by (rule RequestDataList_missing_accessor) simp
qed

text \<open>
  The claim as stated also covers an accessor that returns a value which is no count.
  With \<^verbatim>\<open>undefined\<close> for the queued total the renderer does not fail, and the
  container's old content is replaced by a fragment that reads \<^verbatim>\<open>queued: undefined\<close>.
\<close>

theorem RequestDataList_undefined_value_counterexample:
  "elements undefined_queued_page ''#summary'' = Some ''<p>loading</p>'' \<and>
   fst (RequestDataList 0 ''#summary'' undefined_queued_page) = Inr () \<and>
   elements (snd (RequestDataList 0 ''#summary'' undefined_queued_page)) ''#summary'' =
     Some ''<div class='requestSummaryBox'><ul><li> requests: 3</li><li> total events: 100</li><li> processed events: 50</li><li> created: 10</li><li> cooloff: 2</li><li> success: 8</li><li> failure: 1</li><li> queued: undefined</li><li> running: 3</li><li> pending: 2</li></ul></div>''"
proof -
  let ?vs = "[JNum 3, JNum 100, JNum 50, JNum 10, JNum 2, JNum 8, JNum 1, JUndefined,
              JNum 3, JNum 2]"
  have obj: "objects undefined_queued_page 0 =
      Some (example_summary\<lparr>getTotalQueued := Some JUndefined\<rparr>)"
    and old: "elements undefined_queued_page ''#summary'' = Some ''<p>loading</p>''"
    by (simp_all add: undefined_queued_page_def example_page_def)
  have vals: "summary_values (example_summary\<lparr>getTotalQueued := Some JUndefined\<rparr>) = Some ?vs"
    by (simp add: summary_values_def example_summary_def example_status_def)
  have rendered: "expected_fragment ?vs =
      ''<div class='requestSummaryBox'><ul><li> requests: 3</li><li> total events: 100</li><li> processed events: 50</li><li> created: 10</li><li> cooloff: 2</li><li> success: 8</li><li> failure: 1</li><li> queued: undefined</li><li> running: 3</li><li> pending: 2</li></ul></div>''"
    by (simp add: expected_fragment_def labels_def list_item_def int_to_string_def
          digits.simps)
  have "fst (RequestDataList 0 ''#summary'' undefined_queued_page) = Inr ()"
    by (simp add: RequestDataList_result format_result [OF obj vals])
  moreover have "elements (snd (RequestDataList 0 ''#summary'' undefined_queued_page)) ''#summary''
      = Some (expected_fragment ?vs)"
    by (simp add: RequestDataList_elements format_result [OF obj vals] old)
  ultimately show ?thesis
    using old by (simp only: rendered simp_thms)
qed




section \<open>The shape of the box\<close>



end
